theory Spec2Isabelle
  imports Main "HOL-Library.Word"
begin

section \<open>Data model of the settlement handshake\<close>

text \<open>
  The handshake of \<^verbatim>\<open>pkg/transport/handshake.go\<close> exchanges a signed entry over a
  transport between two peers. Identities, signatures and identifiers are fixed-size
  byte arrays of the packages \<^verbatim>\<open>cipher\<close> and \<^verbatim>\<open>uuid\<close>; they are compared with
  \<^verbatim>\<open>==\<close> and the zero value plays a role (\<^verbatim>\<open>uuid.UUID{}\<close>, \<^verbatim>\<open>Sig.Null()\<close>), so they are
  words of the arrays' widths: 33 bytes for a public key, 32 for a secret key, 65 for a
  signature, 16 for an identifier.
\<close>

type_synonym PubKey = "264 word"
type_synonym SecKey = "256 word"
type_synonym Sig = "520 word"
type_synonym UUID = "128 word"
type_synonym bytes = "8 word list"

text \<open>
  \<^verbatim>\<open>Entry{ID, Edges, Type, Public}\<close>, with the fields the handshake fills in.
  \<^verbatim>\<open>Edges\<close> is a \<^verbatim>\<open>[2]cipher.PubKey\<close>, a pair.
\<close>

record Entry =
  ID :: UUID
  Edges :: "PubKey \<times> PubKey"
  Type :: string
  Public :: bool

text \<open>
  \<^verbatim>\<open>SignedEntry{Entry *Entry, Signatures [2]cipher.Sig}\<close>. The field \<^verbatim>\<open>Entry\<close> is a
  pointer: \<open>None\<close> is the nil pointer, \<open>Some e\<close> a pointer to an object that holds \<open>e\<close>.
  A message on the transport is the JSON encoding of such a value, so the same record
  stands for a decoded message.
\<close>

record SignedEntry =
  Entry :: "Entry option"
  Signatures :: "Sig \<times> Sig"

text \<open>\<^verbatim>\<open>Status{ID, IsUp}\<close>, the argument of the discovery client's status update.\<close>

record Status =
  StatusID :: UUID
  IsUp :: bool

text \<open>
  Errors. \<open>ErrorString m\<close> is an error value made in this package, by
  \<^verbatim>\<open>errors.New(m)\<close> or by \<^verbatim>\<open>fmt.Errorf\<close> (whose result has the formatted message \<open>m\<close>);
  \<open>CipherError m\<close> is the error that \<^verbatim>\<open>cipher.VerifyPubKeySignedPayload\<close> returned, handed
  on unchanged. Errors of the JSON encoder and decoder and of the discovery client only
  occur formatted with \<^verbatim>\<open>%s\<close>, so they are their messages.
\<close>

datatype error = ErrorString string | CipherError string

text \<open>
  The outcome of a Go function that returns \<^verbatim>\<open>(x, error)\<close> or only \<^verbatim>\<open>error\<close>:
  \<open>Ret x\<close> is \<^verbatim>\<open>return x, nil\<close> (for a function that returns only an error, \<open>Ret ()\<close> is
  \<^verbatim>\<open>return nil\<close>), \<open>Err e\<close> is \<^verbatim>\<open>return nil, e\<close>, and \<open>Panic\<close> is a run-time panic
  (a nil pointer dereference, an index out of range).
\<close>

datatype 'a result = Panic | Err error | Ret 'a

text \<open>
  What the handshake calls outside this file: the signature check of package
  \<^verbatim>\<open>cipher\<close> (\<open>None\<close> is a nil error, \<open>Some m\<close> an error with message \<open>m\<close>), the methods
  \<^verbatim>\<open>ToBinary\<close> and \<^verbatim>\<open>Signature\<close> of \<^verbatim>\<open>Entry\<close>, and \<^verbatim>\<open>uuid.New()\<close>, whose result is an input
  of the model. They are parameters.
\<close>

record externals =
  VerifyPubKeySignedPayload :: "PubKey \<Rightarrow> Sig \<Rightarrow> bytes \<Rightarrow> string option"
  ToBinary :: "Entry \<Rightarrow> bytes"
  Signature :: "Entry \<Rightarrow> SecKey \<Rightarrow> Sig"
  uuid_New :: UUID

text \<open>\<^verbatim>\<open>Sig.Null()\<close>: the signature is the zero value of its array type.\<close>

definition Null :: "Sig \<Rightarrow> bool" where
  "Null sig = (sig = 0)"

text \<open>
  The transport \<^verbatim>\<open>tr\<close>: its two identities and its type tag, and what its byte stream
  does under the JSON encoder and decoder. \<open>Encode_result m\<close> is the error of writing the
  message \<open>m\<close> (\<open>None\<close> when the write succeeds); \<open>Decode_result ws\<close> is what reading one
  message yields after the messages \<open>ws\<close> have been written: \<open>Inl m\<close> an error with
  message \<open>m\<close>, \<open>Inr w\<close> the decoded message.
\<close>

record Transport =
  Local :: PubKey
  Remote :: PubKey
  TrType :: string
  Encode_result :: "SignedEntry \<Rightarrow> string option"
  Decode_result :: "SignedEntry list \<Rightarrow> string + SignedEntry"

section \<open>Signature verification and validation of a received entry\<close>

text \<open>\<^verbatim>\<open>sEntry.Signatures[idx]\<close>: indexing the array of two out of range panics.\<close>

definition Signatures_at :: "SignedEntry \<Rightarrow> nat \<Rightarrow> Sig option" where
  "Signatures_at sEntry idx =
     (if idx = 0 then Some (fst (Signatures sEntry))
      else if idx = 1 then Some (snd (Signatures sEntry))
      else None)"

text \<open>
  \<^verbatim>\<open>verifySig(sEntry, idx, pk)\<close> returns what \<^verbatim>\<open>cipher.VerifyPubKeySignedPayload(pk,
  sEntry.Signatures[idx], sEntry.Entry.ToBinary())\<close> returns. \<^verbatim>\<open>ToBinary\<close> reads the fields
  of its receiver, so a nil \<^verbatim>\<open>sEntry.Entry\<close> panics.
\<close>

definition verifySig :: "externals \<Rightarrow> SignedEntry \<Rightarrow> nat \<Rightarrow> PubKey \<Rightarrow> unit result" where
  "verifySig ext sEntry idx pk =
     (case Signatures_at sEntry idx of
        None \<Rightarrow> Panic
      | Some sig \<Rightarrow>
          (case Entry sEntry of
             None \<Rightarrow> Panic
           | Some entry \<Rightarrow>
               (case VerifyPubKeySignedPayload ext pk sig (ToBinary ext entry) of
                  None \<Rightarrow> Ret ()
                | Some m \<Rightarrow> Err (CipherError m))))"

text \<open>
  \<^verbatim>\<open>validateEntry(sEntry, tr)\<close>: the type, then the edges against
  \<^verbatim>\<open>{tr.Remote(), tr.Local()}\<close>, then the null check of signature 0, then \<^verbatim>\<open>verifySig\<close>
  of signature 0 against \<^verbatim>\<open>tr.Remote()\<close>. Reading \<^verbatim>\<open>entry.Type\<close> of a nil entry panics.
\<close>

definition validateEntry :: "externals \<Rightarrow> SignedEntry \<Rightarrow> Transport \<Rightarrow> unit result" where
  "validateEntry ext sEntry tr =
     (case Entry sEntry of
        None \<Rightarrow> Panic
      | Some entry \<Rightarrow>
          if Type entry \<noteq> TrType tr then Err (ErrorString ''invalid entry type'')
          else if Edges entry \<noteq> (Remote tr, Local tr) then Err (ErrorString ''invalid entry edges'')
          else if Null (fst (Signatures sEntry)) then Err (ErrorString ''invalid entry signature'')
          else verifySig ext sEntry 0 (Remote tr))"

section \<open>The manager and the effects of a handshake\<close>

text \<open>
  \<^verbatim>\<open>tm.config\<close>: the secret key and the discovery client. The client's two operations
  are given by the error they return for an argument (\<open>None\<close> is a nil error).
\<close>

record Manager_config =
  SecKey :: SecKey
  UpdateStatuses :: "Status \<Rightarrow> string option"
  RegisterTransports :: "SignedEntry \<Rightarrow> string option"

datatype discovery_call = UpdateStatusesCall Status | RegisterTransportsCall SignedEntry

text \<open>
  What a handshake can change: the registry \<^verbatim>\<open>tm.entries\<close>, the calls made on the
  discovery client (in order), and the messages handed to the transport's encoder (in
  order, whether or not the write succeeded).
\<close>

record state =
  entries :: "Entry list"
  discovery :: "discovery_call list"
  stream :: "SignedEntry list"

text \<open>
  Modelled from the spec: the type \<^verbatim>\<open>Manager\<close> and its methods \<^verbatim>\<open>addEntry\<close> and
  \<^verbatim>\<open>walkEntries\<close> are not in the source at hand. The registry is a collection of Entry
  values; \<open>add(entry)\<close> inserts; \<open>find(predicate)\<close> is a linear scan that returns the first
  entry the predicate accepts, or none.
\<close>

definition addEntry :: "Entry \<Rightarrow> state \<Rightarrow> state" where
  "addEntry entry s = s\<lparr>entries := entries s @ [entry]\<rparr>"

definition walkEntries :: "(Entry \<Rightarrow> bool) \<Rightarrow> state \<Rightarrow> Entry option" where
  "walkEntries walkFunc s = find walkFunc (entries s)"

text \<open>\<^verbatim>\<open>json.NewEncoder(tr).Encode(sEntry)\<close> and \<^verbatim>\<open>json.NewDecoder(tr).Decode(...)\<close>.\<close>

definition Encode :: "Transport \<Rightarrow> SignedEntry \<Rightarrow> state \<Rightarrow> string option \<times> state" where
  "Encode tr sEntry s = (Encode_result tr sEntry, s\<lparr>stream := stream s @ [sEntry]\<rparr>)"

definition Decode :: "Transport \<Rightarrow> state \<Rightarrow> string + SignedEntry" where
  "Decode tr s = Decode_result tr (stream s)"

text \<open>
  The initiator decodes the reply into the \<^verbatim>\<open>sEntry\<close> it sent, whose field \<^verbatim>\<open>Entry\<close> is
  the non-nil pointer \<^verbatim>\<open>entry\<close>. The JSON decoder sets a pointer to nil for \<^verbatim>\<open>null\<close>, and
  otherwise decodes into the object a non-nil pointer refers to: after a reply that
  carries an entry, \<^verbatim>\<open>entry\<close> and \<^verbatim>\<open>sEntry.Entry\<close> still refer to one object, which
  now holds the reply's fields. \<open>Decode_into entry w\<close> is the pair of what \<^verbatim>\<open>entry\<close>
  refers to and of \<^verbatim>\<open>sEntry\<close>, after decoding the message \<open>w\<close>.
\<close>

definition Decode_into :: "Entry \<Rightarrow> SignedEntry \<Rightarrow> Entry \<times> SignedEntry" where
  "Decode_into entry w = (case Entry w of None \<Rightarrow> (entry, w) | Some e \<Rightarrow> (e, w))"

definition call_UpdateStatuses :: "Manager_config \<Rightarrow> Status \<Rightarrow> state \<Rightarrow> string option \<times> state" where
  "call_UpdateStatuses cfg st s =
     (UpdateStatuses cfg st, s\<lparr>discovery := discovery s @ [UpdateStatusesCall st]\<rparr>)"

definition call_RegisterTransports ::
  "Manager_config \<Rightarrow> SignedEntry \<Rightarrow> state \<Rightarrow> string option \<times> state" where
  "call_RegisterTransports cfg sEntry s =
     (RegisterTransports cfg sEntry, s\<lparr>discovery := discovery s @ [RegisterTransportsCall sEntry]\<rparr>)"

section \<open>The two handshakes\<close>

text \<open>
  \<^verbatim>\<open>settlementInitiatorHandshake(id, public)(tm, tr)\<close>, with \<open>uid\<close> for the argument
  \<^verbatim>\<open>id\<close>. Its first statements build the entry: the fields, then a generated
  identifier when \<^verbatim>\<open>id == uuid.UUID{}\<close>.
\<close>

definition initiator_entry :: "externals \<Rightarrow> UUID \<Rightarrow> bool \<Rightarrow> Transport \<Rightarrow> Entry" where
  "initiator_entry ext uid public tr =
     (let entry = \<lparr>ID = uid, Edges = (Local tr, Remote tr), Type = TrType tr, Public = public\<rparr>;
          newEntry = (uid = 0)
      in if newEntry then entry\<lparr>ID := uuid_New ext\<rparr> else entry)"

text \<open>
  The signed entry it sends: \<^verbatim>\<open>&SignedEntry{Entry: entry, Signatures:
  [2]cipher.Sig{entry.Signature(tm.config.SecKey)}}\<close>, the second signature the zero value.
\<close>

definition initiator_sEntry ::
  "externals \<Rightarrow> UUID \<Rightarrow> bool \<Rightarrow> Manager_config \<Rightarrow> Transport \<Rightarrow> SignedEntry" where
  "initiator_sEntry ext uid public cfg tr =
     (let entry = initiator_entry ext uid public tr
      in \<lparr>Entry = Some entry, Signatures = (Signature ext entry (SecKey cfg), 0)\<rparr>)"

text \<open>
  The rest of the initiator. A handshake returns \<^verbatim>\<open>(*Entry, error)\<close>: \<open>Ret p\<close> carries
  the returned pointer.
\<close>

definition settlementInitiatorHandshake ::
  "externals \<Rightarrow> UUID \<Rightarrow> bool \<Rightarrow> Manager_config \<Rightarrow> Transport \<Rightarrow> state
     \<Rightarrow> Entry option result \<times> state" where
  "settlementInitiatorHandshake ext uid public cfg tr s =
     (let entry = initiator_entry ext uid public tr;
          newEntry = (uid = 0);
          sEntry = initiator_sEntry ext uid public cfg tr;
          (werr, s1) = Encode tr sEntry s
      in case werr of
           Some m \<Rightarrow> (Err (ErrorString (''write: '' @ m)), s1)
         | None \<Rightarrow>
             (case Decode tr s1 of
                Inl m \<Rightarrow> (Err (ErrorString (''read: '' @ m)), s1)
              | Inr w \<Rightarrow>
                  (let (entry', sEntry') = Decode_into entry w
                   in case verifySig ext sEntry' 1 (Remote tr) of
                        Panic \<Rightarrow> (Panic, s1)
                      | Err e \<Rightarrow> (Err e, s1)
                      | Ret _ \<Rightarrow>
                          (Ret (Entry sEntry'),
                           if newEntry then addEntry entry' s1 else s1))))"

text \<open>
  \<^verbatim>\<open>settlementResponderHandshake(tm, tr)\<close>. It decodes into an empty \<^verbatim>\<open>SignedEntry\<close>,
  so \<^verbatim>\<open>sEntry\<close> is the decoded message; \<^verbatim>\<open>sEntry.Entry.Signature(...)\<close> dereferences the
  entry.
\<close>

definition settlementResponderHandshake ::
  "externals \<Rightarrow> Manager_config \<Rightarrow> Transport \<Rightarrow> state \<Rightarrow> Entry option result \<times> state" where
  "settlementResponderHandshake ext cfg tr s =
     (case Decode tr s of
        Inl m \<Rightarrow> (Err (ErrorString (''read: '' @ m)), s)
      | Inr sEntry \<Rightarrow>
          (case validateEntry ext sEntry tr of
             Panic \<Rightarrow> (Panic, s)
           | Err e \<Rightarrow> (Err e, s)
           | Ret _ \<Rightarrow>
               (case Entry sEntry of
                  None \<Rightarrow> (Panic, s)
                | Some entry \<Rightarrow>
                    (let sEntry' = sEntry\<lparr>Signatures :=
                                     (fst (Signatures sEntry), Signature ext entry (SecKey cfg))\<rparr>;
                         newEntry = (walkEntries (\<lambda>e. e = entry) s = None);
                         (err, s1) =
                           (if Public entry then
                              (if \<not> newEntry
                               then call_UpdateStatuses cfg \<lparr>StatusID = ID entry, IsUp = True\<rparr> s
                               else call_RegisterTransports cfg sEntry' s)
                            else (None, s))
                     in case err of
                          Some m \<Rightarrow> (Err (ErrorString (''entry set: '' @ m)), s1)
                        | None \<Rightarrow>
                            (let (werr, s2) = Encode tr sEntry' s1
                             in case werr of
                                  Some m \<Rightarrow> (Err (ErrorString (''write: '' @ m)), s2)
                                | None \<Rightarrow>
                                    (Ret (Entry sEntry'),
                                     if newEntry then addEntry entry s2 else s2))))))"

text \<open>
  The error that the discovery client returns for a call, read off the configuration:
  it relates a logged call to its outcome.
\<close>

definition discovery_result :: "Manager_config \<Rightarrow> discovery_call \<Rightarrow> string option" where
  "discovery_result cfg c =
     (case c of
        UpdateStatusesCall st \<Rightarrow> UpdateStatuses cfg st
      | RegisterTransportsCall sEntry \<Rightarrow> RegisterTransports cfg sEntry)"

section \<open>A concrete setting\<close>

text \<open>
  Two peers with the identities 1 and 2 on a transport of type \<open>tcp\<close>, and a stand-in for
  the signature scheme: a peer's public key is its secret key, and a signature is the
  number whose digits to the base 256 are the key and then the bytes of the payload. The examples below run the handshakes in this setting.
\<close>

definition example_ToBinary :: "Entry \<Rightarrow> bytes" where
  "example_ToBinary e =
     [ucast (ID e), ucast (fst (Edges e)), ucast (snd (Edges e))]
       @ map (\<lambda>c. of_nat (of_char c)) (Type e)"

definition example_sign :: "bytes \<Rightarrow> PubKey \<Rightarrow> Sig" where
  "example_sign payload pk = foldl (\<lambda>h b. 256 * h + ucast b) (ucast pk) payload"

definition example_ext :: externals where
  "example_ext =
     \<lparr>VerifyPubKeySignedPayload =
        (\<lambda>pk sig payload.
           if sig = example_sign payload pk then None else Some ''invalid signature''),
      ToBinary = example_ToBinary,
      Signature = (\<lambda>e sk. example_sign (example_ToBinary e) (ucast sk)),
      uuid_New = 7\<rparr>"

definition example_cfg :: "SecKey \<Rightarrow> string option \<Rightarrow> Manager_config" where
  "example_cfg sk disc = \<lparr>SecKey = sk, UpdateStatuses = (\<lambda>_. disc), RegisterTransports = (\<lambda>_. disc)\<rparr>"

definition example_tr ::
  "PubKey \<Rightarrow> PubKey \<Rightarrow> string option \<Rightarrow> string + SignedEntry \<Rightarrow> Transport" where
  "example_tr l r werr rd =
     \<lparr>Local = l, Remote = r, TrType = ''tcp'', Encode_result = (\<lambda>_. werr),
      Decode_result = (\<lambda>_. rd)\<rparr>"

definition example_entry :: "UUID \<Rightarrow> PubKey \<times> PubKey \<Rightarrow> string \<Rightarrow> bool \<Rightarrow> Entry" where
  "example_entry i es t p = \<lparr>ID = i, Edges = es, Type = t, Public = p\<rparr>"

definition example_msg :: "Entry \<Rightarrow> Sig \<times> Sig \<Rightarrow> SignedEntry" where
  "example_msg e sigs = \<lparr>Entry = Some e, Signatures = sigs\<rparr>"

definition example_state :: "Entry list \<Rightarrow> state" where
  "example_state es = \<lparr>entries = es, discovery = [], stream = []\<rparr>"

definition example_sig :: "Entry \<Rightarrow> PubKey \<Rightarrow> Sig" where
  "example_sig e pk = example_sign (example_ToBinary e) pk"

section \<open>The bounded executor\<close>

text \<open>
  \<^verbatim>\<open>type settlementHandshake func(tm *Manager, tr Transport) (*Entry, error)\<close>: with the
  manager's configuration and the transport fixed, a handshake maps the state to its
  outcome and the new state, as \<open>settlementResponderHandshake ext cfg tr\<close> does.
\<close>

type_synonym settlementHandshake = "state \<Rightarrow> Entry option result \<times> state"

text \<open>
  \<^verbatim>\<open>Do\<close> starts a goroutine that runs the handshake, stores its entry in the variable
  \<^verbatim>\<open>entry\<close> and sends its error on the channel \<^verbatim>\<open>errCh\<close> (of capacity 1, so the send
  never blocks); the caller waits in a \<^verbatim>\<open>select\<close> for \<^verbatim>\<open>errCh\<close> or for the channel of
  \<^verbatim>\<open>time.After(timeout)\<close>. A configuration of a call holds the time since the call (in
  the unit of \<^verbatim>\<open>time.Duration\<close>), the state the goroutine works on, whether the goroutine
  has run to its end, whether the program has died of a panic, the variable, the
  channel's buffer, and what \<^verbatim>\<open>Do\<close> has returned, if it has.
\<close>

record Do_config =
  now :: nat
  tm_state :: state
  finished :: bool
  crashed :: bool
  entry_var :: "Entry option"
  errCh :: "error option list"
  returned :: "(Entry option \<times> error option) option"

definition Do_init :: "state \<Rightarrow> Do_config" where
  "Do_init s = \<lparr>now = 0, tm_state = s, finished = False, crashed = False, entry_var = None,
                errCh = [], returned = None\<rparr>"

text \<open>\<^verbatim>\<open>return nil, errors.New("deadline exceeded")\<close>.\<close>

definition deadline_exceeded :: "Entry option \<times> error option" where
  "deadline_exceeded = (None, Some (ErrorString ''deadline exceeded''))"

text \<open>
  The steps of a call \<^verbatim>\<open>handshake.Do(tm, tr, timeout)\<close> whose handshake returns
  \<open>duration\<close> after the call (\<open>None\<close>: it blocks for ever on the transport).
  \<^item> The goroutine ends when the handshake returns: the handshake's effect on the state
    takes place, \<^verbatim>\<open>entry = e\<close>, \<^verbatim>\<open>errCh <- err\<close>. A panic in the handshake ends the
    program.
  \<^item> The \<^verbatim>\<open>select\<close> receives from \<^verbatim>\<open>errCh\<close> when it holds a value, and returns
    \<^verbatim>\<open>entry, err\<close>; it receives from the timer's channel once \<open>timeout\<close> has elapsed
    (at once for a timeout that is zero or negative), and returns the deadline error.
    When both channels are ready either case may be taken.
  \<^item> Time passes only while nothing is due: not while the goroutine is at its end and has
    not finished, and not while the \<^verbatim>\<open>select\<close> is waiting and one of its channels is
    ready.
  No step cancels the goroutine: \<^verbatim>\<open>Do\<close> has no means to do so.
\<close>

inductive Do_step ::
  "settlementHandshake \<Rightarrow> nat option \<Rightarrow> int \<Rightarrow> Do_config \<Rightarrow> Do_config \<Rightarrow> bool"
  for handshake :: settlementHandshake and duration :: "nat option" and timeout :: int
where
  goroutine_returns:
    "\<not> crashed c \<Longrightarrow> \<not> finished c \<Longrightarrow> duration = Some (now c) \<Longrightarrow>
     handshake (tm_state c) = (Ret e, s') \<Longrightarrow>
     Do_step handshake duration timeout c
       (c\<lparr>tm_state := s', finished := True, entry_var := e, errCh := errCh c @ [None]\<rparr>)"
| goroutine_fails:
    "\<not> crashed c \<Longrightarrow> \<not> finished c \<Longrightarrow> duration = Some (now c) \<Longrightarrow>
     handshake (tm_state c) = (Err err, s') \<Longrightarrow>
     Do_step handshake duration timeout c
       (c\<lparr>tm_state := s', finished := True, entry_var := None, errCh := errCh c @ [Some err]\<rparr>)"
| goroutine_panics:
    "\<not> crashed c \<Longrightarrow> \<not> finished c \<Longrightarrow> duration = Some (now c) \<Longrightarrow>
     handshake (tm_state c) = (Panic, s') \<Longrightarrow>
     Do_step handshake duration timeout c (c\<lparr>tm_state := s', crashed := True\<rparr>)"
| select_errCh:
    "\<not> crashed c \<Longrightarrow> returned c = None \<Longrightarrow> errCh c = err # rest \<Longrightarrow>
     Do_step handshake duration timeout c
       (c\<lparr>errCh := rest, returned := Some (entry_var c, err)\<rparr>)"
| select_timer:
    "\<not> crashed c \<Longrightarrow> returned c = None \<Longrightarrow> timeout \<le> int (now c) \<Longrightarrow>
     Do_step handshake duration timeout c (c\<lparr>returned := Some deadline_exceeded\<rparr>)"
| tick:
    "\<not> crashed c \<Longrightarrow> finished c \<or> duration \<noteq> Some (now c) \<Longrightarrow>
     returned c \<noteq> None \<or> (errCh c = [] \<and> int (now c) < timeout) \<Longrightarrow>
     Do_step handshake duration timeout c (c\<lparr>now := now c + 1\<rparr>)"

code_pred Do_step .

text \<open>The configurations that a call of \<^verbatim>\<open>Do\<close> on the state \<open>s\<close> can reach.\<close>

definition Do_runs ::
  "settlementHandshake \<Rightarrow> nat option \<Rightarrow> int \<Rightarrow> state \<Rightarrow> Do_config \<Rightarrow> bool" where
  "Do_runs handshake duration timeout s c =
     (Do_step handshake duration timeout)\<^sup>*\<^sup>* (Do_init s) c"


section \<open>Properties of validation and of the handshakes\<close>

lemmas example_defs =
  example_ToBinary_def example_sign_def example_ext_def example_cfg_def example_tr_def
  example_entry_def example_msg_def example_state_def example_sig_def

lemmas effect_defs =
  Encode_def Decode_def Decode_into_def call_UpdateStatuses_def call_RegisterTransports_def
  addEntry_def

lemmas check_defs = validateEntry_def verifySig_def Signatures_at_def Null_def

lemma walkEntries_equal: "(walkEntries (\<lambda>e. e = entry) s = None) = (entry \<notin> set (entries s))"
  by (auto simp: walkEntries_def find_None_iff)

text \<open>
  Claim C1. \<^verbatim>\<open>validateEntry\<close>, which the responder applies to the initiator's message,
  makes four checks in this order and stops at the first that fails: the entry's type
  against the transport's type (error \<open>invalid entry type\<close>), the edges against the pair
  of the remote and the local identity, position by position (error \<open>invalid entry
  edges\<close>), the signature at position 0 against the null signature (error \<open>invalid entry
  signature\<close>), and the verification of the signature at position 0 with the key of
  \<open>edges[0]\<close> over the entry's binary encoding (the error of the signature check). The
  four errors are different from one another.
\<close>

theorem validateEntry_checks:
  assumes "Entry sEntry = Some entry"
  shows "(Type entry \<noteq> TrType tr \<longrightarrow>
            validateEntry ext sEntry tr = Err (ErrorString ''invalid entry type''))
       \<and> (Type entry = TrType tr \<and> Edges entry \<noteq> (Remote tr, Local tr) \<longrightarrow>
            validateEntry ext sEntry tr = Err (ErrorString ''invalid entry edges''))
       \<and> (Type entry = TrType tr \<and> Edges entry = (Remote tr, Local tr)
            \<and> fst (Signatures sEntry) = 0 \<longrightarrow>
            validateEntry ext sEntry tr = Err (ErrorString ''invalid entry signature''))
       \<and> (Type entry = TrType tr \<and> Edges entry = (Remote tr, Local tr)
            \<and> fst (Signatures sEntry) \<noteq> 0 \<longrightarrow>
            validateEntry ext sEntry tr =
              (case VerifyPubKeySignedPayload ext (fst (Edges entry)) (fst (Signatures sEntry))
                      (ToBinary ext entry) of
                 None \<Rightarrow> Ret ()
               | Some m \<Rightarrow> Err (CipherError m)))
       \<and> distinct [ErrorString ''invalid entry type'', ErrorString ''invalid entry edges'',
                   ErrorString ''invalid entry signature'', CipherError m']"
  using assms by (simp add: check_defs)

text \<open>
  The five outcomes of C1 on messages to the peer 2 from the peer 1: a wrong type, swapped
  edges, a null signature, a signature that does not verify, and a valid message.
\<close>

theorem validateEntry_checks_witness:
  "validateEntry example_ext
     (example_msg (example_entry 7 (1, 2) ''udp'' True)
        (example_sig (example_entry 7 (1, 2) ''udp'' True) 1, 0))
     (example_tr 2 1 None (Inl ''EOF'')) = Err (ErrorString ''invalid entry type'')
   \<and> validateEntry example_ext
     (example_msg (example_entry 7 (2, 1) ''tcp'' True)
        (example_sig (example_entry 7 (2, 1) ''tcp'' True) 1, 0))
     (example_tr 2 1 None (Inl ''EOF'')) = Err (ErrorString ''invalid entry edges'')
   \<and> validateEntry example_ext
     (example_msg (example_entry 7 (1, 2) ''tcp'' True) (0, 0))
     (example_tr 2 1 None (Inl ''EOF'')) = Err (ErrorString ''invalid entry signature'')
   \<and> validateEntry example_ext
     (example_msg (example_entry 7 (1, 2) ''tcp'' True) (5, 0))
     (example_tr 2 1 None (Inl ''EOF'')) = Err (CipherError ''invalid signature'')
   \<and> validateEntry example_ext
     (example_msg (example_entry 7 (1, 2) ''tcp'' True)
        (example_sig (example_entry 7 (1, 2) ''tcp'' True) 1, 0))
     (example_tr 2 1 None (Inl ''EOF'')) = Ret ()"
proof -
  let ?tr = "example_tr 2 1 None (Inl ''EOF'')"
  let ?e = "example_entry 7 (1, 2) ''tcp'' True"
  let ?u = "example_entry 7 (1, 2) ''udp'' True"
  let ?w = "example_entry 7 (2, 1) ''tcp'' True"
  have t1: "validateEntry example_ext (example_msg ?u (example_sig ?u 1, 0)) ?tr
              = Err (ErrorString ''invalid entry type'')"
    using validateEntry_checks [where sEntry = "example_msg ?u (example_sig ?u 1, 0)"
        and entry = ?u and tr = ?tr and ext = example_ext]
    by (simp add: example_defs)
  have t2: "validateEntry example_ext (example_msg ?w (example_sig ?w 1, 0)) ?tr
              = Err (ErrorString ''invalid entry edges'')"
    using validateEntry_checks [where sEntry = "example_msg ?w (example_sig ?w 1, 0)"
        and entry = ?w and tr = ?tr and ext = example_ext]
    by (simp add: example_defs)
  have t3: "validateEntry example_ext (example_msg ?e (0, 0)) ?tr
              = Err (ErrorString ''invalid entry signature'')"
    using validateEntry_checks [where sEntry = "example_msg ?e (0, 0)"
        and entry = ?e and tr = ?tr and ext = example_ext]
    by (simp add: example_defs)
  have t4: "validateEntry example_ext (example_msg ?e (5, 0)) ?tr
              = Err (CipherError ''invalid signature'')"
    using validateEntry_checks [where sEntry = "example_msg ?e (5, 0)"
        and entry = ?e and tr = ?tr and ext = example_ext]
    by (simp add: example_defs)
  have t5: "validateEntry example_ext (example_msg ?e (example_sig ?e 1, 0)) ?tr = Ret ()"
    using validateEntry_checks [where sEntry = "example_msg ?e (example_sig ?e 1, 0)"
        and entry = ?e and tr = ?tr and ext = example_ext]
    by (simp add: example_defs)
  from t1 t2 t3 t4 t5 show ?thesis by blast
qed

text \<open>
  Claim C2. In the responder, once the received entry is validated and signed at
  position 1, the entry is new exactly when no equal entry (equal in every field) is in
  the registry. The discovery client is then called exactly once if the entry is public,
  and not at all otherwise: \<^verbatim>\<open>RegisterTransports\<close> with the entry and both signatures
  (the received, verified one and the responder's own) when the entry is new,
  \<^verbatim>\<open>UpdateStatuses\<close> with the entry's id and \<^verbatim>\<open>IsUp: true\<close> when it is not.
\<close>

theorem responder_discovery_calls:
  assumes "Decode tr s = Inr sEntry"
    and "validateEntry ext sEntry tr = Ret ()"
    and "Entry sEntry = Some entry"
  shows "discovery (snd (settlementResponderHandshake ext cfg tr s)) =
           discovery s @
           (if Public entry then
              (if entry \<in> set (entries s)
               then [UpdateStatusesCall \<lparr>StatusID = ID entry, IsUp = True\<rparr>]
               else [RegisterTransportsCall
                       \<lparr>Entry = Some entry,
                        Signatures = (fst (Signatures sEntry), Signature ext entry (SecKey cfg))\<rparr>])
            else [])
       \<and> fst (Signatures sEntry) \<noteq> 0
       \<and> VerifyPubKeySignedPayload ext (Remote tr) (fst (Signatures sEntry)) (ToBinary ext entry)
           = None"
proof -
  from assms(2,3) have sig: "fst (Signatures sEntry) \<noteq> 0
      \<and> VerifyPubKeySignedPayload ext (Remote tr) (fst (Signatures sEntry)) (ToBinary ext entry)
          = None"
    by (auto simp: check_defs split: if_splits option.splits)
  from assms have "discovery (snd (settlementResponderHandshake ext cfg tr s)) =
           discovery s @
           (if Public entry then
              (if entry \<in> set (entries s)
               then [UpdateStatusesCall \<lparr>StatusID = ID entry, IsUp = True\<rparr>]
               else [RegisterTransportsCall
                       \<lparr>Entry = Some entry,
                        Signatures = (fst (Signatures sEntry), Signature ext entry (SecKey cfg))\<rparr>])
            else [])"
    by (cases sEntry)
      (auto simp: settlementResponderHandshake_def Let_def walkEntries_equal effect_defs
        split: option.splits prod.splits)
  with sig show ?thesis by blast
qed

text \<open>
  C2 for a public entry from the peer 1 that reaches the peer 2: with an empty registry
  the entry is registered with both signatures, with the entry in the registry its status
  is updated, and a private entry makes no call.
\<close>

theorem responder_discovery_calls_witness:
  "discovery (snd (settlementResponderHandshake example_ext (example_cfg 2 None)
      (example_tr 2 1 None
         (Inr (example_msg (example_entry 7 (1, 2) ''tcp'' True)
                 (example_sig (example_entry 7 (1, 2) ''tcp'' True) 1, 0))))
      (example_state [])))
     = [RegisterTransportsCall
          (example_msg (example_entry 7 (1, 2) ''tcp'' True)
             (example_sig (example_entry 7 (1, 2) ''tcp'' True) 1,
              example_sig (example_entry 7 (1, 2) ''tcp'' True) 2))]
   \<and> discovery (snd (settlementResponderHandshake example_ext (example_cfg 2 None)
      (example_tr 2 1 None
         (Inr (example_msg (example_entry 7 (1, 2) ''tcp'' True)
                 (example_sig (example_entry 7 (1, 2) ''tcp'' True) 1, 0))))
      (example_state [example_entry 7 (1, 2) ''tcp'' True])))
     = [UpdateStatusesCall \<lparr>StatusID = 7, IsUp = True\<rparr>]
   \<and> discovery (snd (settlementResponderHandshake example_ext (example_cfg 2 None)
      (example_tr 2 1 None
         (Inr (example_msg (example_entry 7 (1, 2) ''tcp'' False)
                 (example_sig (example_entry 7 (1, 2) ''tcp'' False) 1, 0))))
      (example_state [])))
     = []"
proof -
  let ?e = "example_entry 7 (1, 2) ''tcp'' True"
  let ?m = "example_msg ?e (example_sig ?e 1, 0)"
  let ?tr = "example_tr 2 1 None (Inr ?m)"
  let ?f = "example_entry 7 (1, 2) ''tcp'' False"
  let ?n = "example_msg ?f (example_sig ?f 1, 0)"
  let ?tr' = "example_tr 2 1 None (Inr ?n)"
  have d: "Decode ?tr s = Inr ?m" and d': "Decode ?tr' s = Inr ?n" for s
    by (simp_all add: Decode_def example_tr_def)
  have v: "validateEntry example_ext ?m ?tr = Ret ()"
    and v': "validateEntry example_ext ?n ?tr' = Ret ()"
    by (simp_all add: check_defs example_defs)
  have e: "Entry ?m = Some ?e" and e': "Entry ?n = Some ?f"
    by (simp_all add: example_msg_def)
  from responder_discovery_calls [OF d v e, where s = "example_state []"
        and cfg = "example_cfg 2 None"]
    responder_discovery_calls [OF d v e, where s = "example_state [?e]"
        and cfg = "example_cfg 2 None"]
    responder_discovery_calls [OF d' v' e', where s = "example_state []"
        and cfg = "example_cfg 2 None"]
  show ?thesis by (simp add: example_defs)
qed

text \<open>
  Claim C3. Whenever the responder makes a discovery call (a registration or a status
  update) that returns an error, the handshake returns an error with the message
  \<open>entry set: \<close> followed by the call's error, hands no reply to the transport's
  encoder, and leaves the registry as it was.
\<close>

theorem responder_discovery_failure:
  assumes "settlementResponderHandshake ext cfg tr s = (r, s')"
    and "discovery s' = discovery s @ [c]"
    and "discovery_result cfg c = Some m"
  shows "r = Err (ErrorString (''entry set: '' @ m)) \<and> stream s' = stream s
       \<and> entries s' = entries s"
  using assms
  by (auto simp: settlementResponderHandshake_def discovery_result_def Let_def effect_defs
      split: sum.splits result.splits option.splits if_splits prod.splits)

text \<open>C3 when the registration of a new public entry fails, and when a status update fails.\<close>

theorem responder_discovery_failure_witness:
  "settlementResponderHandshake example_ext (example_cfg 2 (Some ''unavailable''))
      (example_tr 2 1 None
         (Inr (example_msg (example_entry 7 (1, 2) ''tcp'' True)
                 (example_sig (example_entry 7 (1, 2) ''tcp'' True) 1, 0))))
      (example_state [])
     = (Err (ErrorString ''entry set: unavailable''),
        \<lparr>entries = [],
         discovery = [RegisterTransportsCall
                        (example_msg (example_entry 7 (1, 2) ''tcp'' True)
                           (example_sig (example_entry 7 (1, 2) ''tcp'' True) 1,
                            example_sig (example_entry 7 (1, 2) ''tcp'' True) 2))],
         stream = []\<rparr>)
   \<and> settlementResponderHandshake example_ext (example_cfg 2 (Some ''unavailable''))
      (example_tr 2 1 None
         (Inr (example_msg (example_entry 7 (1, 2) ''tcp'' True)
                 (example_sig (example_entry 7 (1, 2) ''tcp'' True) 1, 0))))
      (example_state [example_entry 7 (1, 2) ''tcp'' True])
     = (Err (ErrorString ''entry set: unavailable''),
        \<lparr>entries = [example_entry 7 (1, 2) ''tcp'' True],
         discovery = [UpdateStatusesCall \<lparr>StatusID = 7, IsUp = True\<rparr>],
         stream = []\<rparr>)"
proof -
  let ?e = "example_entry 7 (1, 2) ''tcp'' True"
  let ?m = "example_msg ?e (example_sig ?e 1, 0)"
  let ?tr = "example_tr 2 1 None (Inr ?m)"
  let ?cfg = "example_cfg 2 (Some ''unavailable'')"
  let ?run = "\<lambda>es. settlementResponderHandshake example_ext ?cfg ?tr (example_state es)"
  let ?reg = "RegisterTransportsCall (example_msg ?e (example_sig ?e 1, example_sig ?e 2))"
  let ?upd = "UpdateStatusesCall \<lparr>StatusID = 7, IsUp = True\<rparr>"
  have run: "?run es = (fst (?run es), snd (?run es))" for es by simp
  have d1: "discovery (snd (?run [])) = discovery (example_state []) @ [?reg]"
    and d2: "discovery (snd (?run [?e])) = discovery (example_state [?e]) @ [?upd]"
    and u1: "discovery_result ?cfg ?reg = Some ''unavailable''"
    and u2: "discovery_result ?cfg ?upd = Some ''unavailable''"
    by (simp_all add: settlementResponderHandshake_def Let_def walkEntries_equal effect_defs
        check_defs example_defs discovery_result_def)
  have other: "discovery (snd (?run [])) = [?reg]" "discovery (snd (?run [?e])) = [?upd]"
    using d1 d2 by (simp_all add: example_state_def)
  from responder_discovery_failure [OF run d1 u1] responder_discovery_failure [OF run d2 u2]
    other
  show ?thesis
    by (simp add: prod_eq_iff example_state_def state.equality)
qed

text \<open>
  Claim C4. Whenever the validation of the received signed entry fails, the responder
  returns the error of the validation and changes nothing: no message is handed to the
  transport's encoder, the registry is as before, and no discovery call is made.
\<close>

theorem responder_validation_failure:
  assumes "Decode tr s = Inr sEntry"
    and "validateEntry ext sEntry tr = Err e"
  shows "settlementResponderHandshake ext cfg tr s = (Err e, s)"
  using assms by (simp add: settlementResponderHandshake_def)

text \<open>C4 for a message whose edges are swapped.\<close>

theorem responder_validation_failure_witness:
  "settlementResponderHandshake example_ext (example_cfg 2 None)
      (example_tr 2 1 None
         (Inr (example_msg (example_entry 7 (2, 1) ''tcp'' True)
                 (example_sig (example_entry 7 (2, 1) ''tcp'' True) 1, 0))))
      (example_state [])
     = (Err (ErrorString ''invalid entry edges''), example_state [])"
proof -
  let ?w = "example_entry 7 (2, 1) ''tcp'' True"
  let ?m = "example_msg ?w (example_sig ?w 1, 0)"
  let ?tr = "example_tr 2 1 None (Inr ?m)"
  have d: "Decode ?tr (example_state []) = Inr ?m"
    by (simp add: Decode_def example_tr_def)
  have v: "validateEntry example_ext ?m ?tr = Err (ErrorString ''invalid entry edges'')"
    by (simp add: check_defs example_defs)
  from responder_validation_failure [OF d v] show ?thesis .
qed

lemmas initiator_defs =
  settlementInitiatorHandshake_def Let_def effect_defs verifySig_def Signatures_at_def



text \<open>
  Claim C6. Every path of the initiator that does not return an entry leaves the registry
  as it was. A failed write returns an error whose message is \<open>write: \<close> followed by the
  write's error, a failed read one whose message is \<open>read: \<close> followed by the read's
  error, and a reply whose signature at position 1 does not verify against the remote
  identity returns the error of the signature check.
\<close>

theorem initiator_failures:
  assumes "settlementInitiatorHandshake ext uid public cfg tr s = (r, s')"
  shows "((\<forall>q. r \<noteq> Ret q) \<longrightarrow> entries s' = entries s)
       \<and> (Encode_result tr (initiator_sEntry ext uid public cfg tr) = Some m \<longrightarrow>
            r = Err (ErrorString (''write: '' @ m)))
       \<and> (Encode_result tr (initiator_sEntry ext uid public cfg tr) = None
            \<and> Decode_result tr (stream s @ [initiator_sEntry ext uid public cfg tr]) = Inl m \<longrightarrow>
            r = Err (ErrorString (''read: '' @ m)))
       \<and> (Encode_result tr (initiator_sEntry ext uid public cfg tr) = None
            \<and> Decode_result tr (stream s @ [initiator_sEntry ext uid public cfg tr]) = Inr w
            \<and> Entry w = Some e
            \<and> VerifyPubKeySignedPayload ext (Remote tr) (snd (Signatures w)) (ToBinary ext e)
                = Some m \<longrightarrow>
            r = Err (CipherError m))"
  using assms
  by (auto simp: initiator_defs
      split: sum.splits result.splits option.splits if_splits prod.splits)

text \<open>
  C6 for the peer 1 with the all-zero id: a write that fails, a read that fails, and a
  reply whose second signature is not the peer 2's.
\<close>

theorem initiator_failures_witness:
  "settlementInitiatorHandshake example_ext 0 True (example_cfg 1 None)
      (example_tr 1 2 (Some ''broken pipe'') (Inl ''EOF'')) (example_state [])
     = (Err (ErrorString ''write: broken pipe''),
        \<lparr>entries = [], discovery = [],
         stream = [example_msg (example_entry 7 (1, 2) ''tcp'' True)
                     (example_sig (example_entry 7 (1, 2) ''tcp'' True) 1, 0)]\<rparr>)
   \<and> settlementInitiatorHandshake example_ext 0 True (example_cfg 1 None)
      (example_tr 1 2 None (Inl ''EOF'')) (example_state [])
     = (Err (ErrorString ''read: EOF''),
        \<lparr>entries = [], discovery = [],
         stream = [example_msg (example_entry 7 (1, 2) ''tcp'' True)
                     (example_sig (example_entry 7 (1, 2) ''tcp'' True) 1, 0)]\<rparr>)
   \<and> settlementInitiatorHandshake example_ext 0 True (example_cfg 1 None)
      (example_tr 1 2 None
         (Inr (example_msg (example_entry 7 (1, 2) ''tcp'' True)
                 (example_sig (example_entry 7 (1, 2) ''tcp'' True) 1, 5))))
      (example_state [])
     = (Err (CipherError ''invalid signature''),
        \<lparr>entries = [], discovery = [],
         stream = [example_msg (example_entry 7 (1, 2) ''tcp'' True)
                     (example_sig (example_entry 7 (1, 2) ''tcp'' True) 1, 0)]\<rparr>)"
proof -
  let ?e = "example_entry 7 (1, 2) ''tcp'' True"
  let ?cfg = "example_cfg 1 None"
  let ?sent = "example_msg ?e (example_sig ?e 1, 0)"
  let ?bad = "example_msg ?e (example_sig ?e 1, 5)"
  let ?pipe = "example_tr 1 2 (Some ''broken pipe'') (Inl ''EOF'')"
  let ?eof = "example_tr 1 2 None (Inl ''EOF'')"
  let ?forged = "example_tr 1 2 None (Inr ?bad)"
  let ?run = "\<lambda>tr. settlementInitiatorHandshake example_ext 0 True ?cfg tr (example_state [])"
  have run: "?run tr = (fst (?run tr), snd (?run tr))" for tr by simp
  have sent: "initiator_sEntry example_ext 0 True ?cfg (example_tr 1 2 werr rd) = ?sent"
    for werr rd
    by (simp add: initiator_sEntry_def initiator_entry_def Let_def example_defs)
  have rest: "discovery (snd (?run tr)) = [] \<and> stream (snd (?run tr))
                = [initiator_sEntry example_ext 0 True ?cfg tr]" for tr
    by (simp add: initiator_defs example_state_def
        split: sum.splits result.splits option.splits prod.splits)
  have w: "Encode_result ?pipe ?sent = Some ''broken pipe''"
    and ok: "Encode_result ?eof ?sent = None" "Encode_result ?forged ?sent = None"
    and rd: "Decode_result ?eof (stream (example_state []) @ [?sent]) = Inl ''EOF''"
    and rp: "Decode_result ?forged (stream (example_state []) @ [?sent]) = Inr ?bad"
    and en: "Entry ?bad = Some ?e"
    and vf: "VerifyPubKeySignedPayload example_ext (Remote ?forged) (snd (Signatures ?bad))
               (ToBinary example_ext ?e) = Some ''invalid signature''"
    by (simp_all add: example_defs)
  from initiator_failures [OF run, of ?pipe "''broken pipe''"] w
  have a: "fst (?run ?pipe) = Err (ErrorString ''write: broken pipe'')
           \<and> entries (snd (?run ?pipe)) = entries (example_state [])"
    by (simp add: sent)
  from initiator_failures [OF run, of ?eof "''EOF''"] ok rd
  have b: "fst (?run ?eof) = Err (ErrorString ''read: EOF'')
           \<and> entries (snd (?run ?eof)) = entries (example_state [])"
    by (simp add: sent)
  from initiator_failures [OF run, of ?forged "''invalid signature''" ?bad ?e] ok rp en vf
  have c: "fst (?run ?forged) = Err (CipherError ''invalid signature'')
           \<and> entries (snd (?run ?forged)) = entries (example_state [])"
    by (simp add: sent)
  from a b c rest [of ?pipe] rest [of ?eof] rest [of ?forged] show ?thesis
    by (simp add: prod_eq_iff state.equality sent example_state_def)
qed



text \<open>
  Claim C9, as the code has it. The initiator always builds and sends an entry whose
  edges are the pair of its local and its remote identity, and the responder's validation
  accepts an entry only if its edges are the pair of the responder's remote and local
  identity: every entry that passes the validation, and every entry that a successful
  responder handshake returns, has its edges in the order initiator, responder. The
  entry that a successful initiator handshake returns is the entry of the reply it read,
  whose edges the initiator does not check.
\<close>

theorem edges_orientation:
  "Edges (initiator_entry ext uid public tr) = (Local tr, Remote tr)
   \<and> Entry (initiator_sEntry ext uid public cfg tr) = Some (initiator_entry ext uid public tr)
   \<and> stream (snd (settlementInitiatorHandshake ext uid public cfg tr s))
       = stream s @ [initiator_sEntry ext uid public cfg tr]
   \<and> (validateEntry ext sEntry tr = Ret () \<longrightarrow>
        (\<exists>e. Entry sEntry = Some e \<and> Edges e = (Remote tr, Local tr)))
   \<and> (fst (settlementResponderHandshake ext cfg tr s) = Ret p \<longrightarrow>
        (\<exists>e. p = Some e \<and> Edges e = (Remote tr, Local tr)))
   \<and> (fst (settlementInitiatorHandshake ext uid public cfg tr s) = Ret p \<longrightarrow>
        (\<exists>w. Decode_result tr (stream s @ [initiator_sEntry ext uid public cfg tr]) = Inr w
             \<and> Entry w = p))"
proof (intro conjI)
  show "Edges (initiator_entry ext uid public tr) = (Local tr, Remote tr)"
    by (simp add: initiator_entry_def Let_def)
  show "Entry (initiator_sEntry ext uid public cfg tr) = Some (initiator_entry ext uid public tr)"
    by (simp add: initiator_sEntry_def Let_def)
  show "stream (snd (settlementInitiatorHandshake ext uid public cfg tr s))
          = stream s @ [initiator_sEntry ext uid public cfg tr]"
    by (simp add: initiator_defs split: sum.splits result.splits option.splits prod.splits)
  show "validateEntry ext sEntry tr = Ret () \<longrightarrow>
          (\<exists>e. Entry sEntry = Some e \<and> Edges e = (Remote tr, Local tr))"
    by (auto simp: validateEntry_def split: option.splits if_splits)
  show "fst (settlementResponderHandshake ext cfg tr s) = Ret p \<longrightarrow>
          (\<exists>e. p = Some e \<and> Edges e = (Remote tr, Local tr))"
    by (auto simp: settlementResponderHandshake_def validateEntry_def Let_def effect_defs
        split: sum.splits result.splits option.splits if_splits prod.splits)
  show "fst (settlementInitiatorHandshake ext uid public cfg tr s) = Ret p \<longrightarrow>
          (\<exists>w. Decode_result tr (stream s @ [initiator_sEntry ext uid public cfg tr]) = Inr w
               \<and> Entry w = p)"
    by (auto simp: initiator_defs
        split: sum.splits result.splits option.splits if_splits prod.splits)
qed

text \<open>
  The three implications of the statement above at a message that passes the peer 2's
  validation, at the successful responder handshake on it, and at a successful initiator
  handshake of the peer 1.
\<close>

theorem edges_orientation_witness:
  "validateEntry example_ext
      (example_msg (example_entry 7 (1, 2) ''tcp'' True)
         (example_sig (example_entry 7 (1, 2) ''tcp'' True) 1, 0))
      (example_tr 2 1 None
         (Inr (example_msg (example_entry 7 (1, 2) ''tcp'' True)
                 (example_sig (example_entry 7 (1, 2) ''tcp'' True) 1, 0)))) = Ret ()
   \<and> fst (settlementResponderHandshake example_ext (example_cfg 2 None)
        (example_tr 2 1 None
           (Inr (example_msg (example_entry 7 (1, 2) ''tcp'' True)
                   (example_sig (example_entry 7 (1, 2) ''tcp'' True) 1, 0))))
        (example_state []))
       = Ret (Some (example_entry 7 (1, 2) ''tcp'' True))
   \<and> fst (settlementInitiatorHandshake example_ext 0 True (example_cfg 1 None)
        (example_tr 1 2 None
           (Inr (example_msg (example_entry 7 (1, 2) ''tcp'' True)
                   (example_sig (example_entry 7 (1, 2) ''tcp'' True) 1,
                    example_sig (example_entry 7 (1, 2) ''tcp'' True) 2))))
        (example_state []))
       = Ret (Some (example_entry 7 (1, 2) ''tcp'' True))
   \<and> Edges (example_entry 7 (1, 2) ''tcp'' True) = (1, 2)"
proof -
  let ?e = "example_entry 7 (1, 2) ''tcp'' True"
  let ?m = "example_msg ?e (example_sig ?e 1, 0)"
  let ?resp = "example_tr 2 1 None (Inr ?m)"
  let ?init = "example_tr 1 2 None (Inr (example_msg ?e (example_sig ?e 1, example_sig ?e 2)))"
  have v: "validateEntry example_ext ?m ?resp = Ret ()"
    by (simp add: check_defs example_defs)
  have r: "fst (settlementResponderHandshake example_ext (example_cfg 2 None) ?resp
                  (example_state [])) = Ret (Some ?e)"
    by (simp add: settlementResponderHandshake_def Let_def walkEntries_equal effect_defs
        check_defs example_defs)
  have i: "fst (settlementInitiatorHandshake example_ext 0 True (example_cfg 1 None) ?init
                  (example_state [])) = Ret (Some ?e)"
    by (simp add: initiator_defs initiator_entry_def initiator_sEntry_def example_defs)
  from edges_orientation [where ext = example_ext and sEntry = ?m and tr = ?resp
      and cfg = "example_cfg 2 None" and s = "example_state []" and p = "Some ?e"] v r
  have "Edges ?e = (Remote ?resp, Local ?resp)"
    by (simp add: example_msg_def)
  then have "Edges ?e = (1, 2)" by (simp add: example_tr_def)
  moreover
  from edges_orientation [where ext = example_ext and uid = 0 and public = True
      and tr = ?init and cfg = "example_cfg 1 None" and s = "example_state []"
      and p = "Some ?e"] i
  have "\<exists>w. Decode_result ?init (stream (example_state [])
               @ [initiator_sEntry example_ext 0 True (example_cfg 1 None) ?init]) = Inr w
             \<and> Entry w = Some ?e"
    by simp
  ultimately show ?thesis using v r i by simp
qed

text \<open>
  Claim C9 as it is written fails for the entry that a successful initiator handshake
  returns: the peer 1 initiates towards the peer 2 and reads a reply, signed by the
  peer 2, whose edges are swapped; the handshake succeeds and returns an entry whose
  edges are not the pair of the initiator and the responder.
\<close>

theorem edges_orientation_counterexample:
  "fst (settlementInitiatorHandshake example_ext 0 True (example_cfg 1 None)
        (example_tr 1 2 None
           (Inr (example_msg (example_entry 7 (2, 1) ''tcp'' True)
                   (0, example_sig (example_entry 7 (2, 1) ''tcp'' True) 2))))
        (example_state []))
     = Ret (Some (example_entry 7 (2, 1) ''tcp'' True))
   \<and> Edges (example_entry 7 (2, 1) ''tcp'' True)
       \<noteq> (Local (example_tr 1 2 None
                    (Inr (example_msg (example_entry 7 (2, 1) ''tcp'' True)
                            (0, example_sig (example_entry 7 (2, 1) ''tcp'' True) 2)))),
           Remote (example_tr 1 2 None
                    (Inr (example_msg (example_entry 7 (2, 1) ''tcp'' True)
                            (0, example_sig (example_entry 7 (2, 1) ''tcp'' True) 2)))))"
  by (simp add: initiator_defs initiator_entry_def initiator_sEntry_def example_defs)

section \<open>Properties of the bounded executor\<close>

lemma Do_runs_init: "Do_runs hs d timeout s (Do_init s)"
  by (simp add: Do_runs_def)

lemma Do_runs_steps:
  "Do_runs hs d timeout s c \<Longrightarrow> (Do_step hs d timeout)\<^sup>*\<^sup>* c c' \<Longrightarrow> Do_runs hs d timeout s c'"
  by (simp add: Do_runs_def)

lemma Do_runs_step:
  "Do_runs hs d timeout s c \<Longrightarrow> Do_step hs d timeout c c' \<Longrightarrow> Do_runs hs d timeout s c'"
  by (simp add: Do_runs_def)

lemma Do_runs_induct [consumes 1, case_names init step]:
  assumes "Do_runs hs d timeout s c"
    and "P (Do_init s)"
    and "\<And>c c'. Do_runs hs d timeout s c \<Longrightarrow> P c \<Longrightarrow> Do_step hs d timeout c c' \<Longrightarrow> P c'"
  shows "P c"
  using assms(1) unfolding Do_runs_def
  by (induction rule: rtranclp_induct) (auto intro: assms(2,3) simp: Do_runs_def)

text \<open>
  With a timeout that is zero or negative, a waiting \<^verbatim>\<open>select\<close> is still at time 0, and
  unless the handshake returns at time 0 the goroutine has not finished by then: the
  only thing \<^verbatim>\<open>Do\<close> can return is the deadline error.
\<close>

lemma zero_timeout_inv:
  assumes "Do_runs hs d timeout s c" and "timeout \<le> 0"
  shows "(returned c = None \<longrightarrow> now c = 0)
       \<and> (d \<noteq> Some 0 \<longrightarrow>
            (returned c = None \<longrightarrow> \<not> finished c \<and> errCh c = [])
            \<and> (\<forall>x. returned c = Some x \<longrightarrow> x = deadline_exceeded))"
  using assms(1)
proof (induction rule: Do_runs_induct)
  case init
  show ?case by (simp add: Do_init_def)
next
  case (step c c')
  from step.hyps(2) show ?case
    by cases (use step.IH assms(2) in auto)
qed

text \<open>Time passes while the \<^verbatim>\<open>select\<close> waits and nothing is due.\<close>

lemma ticks_waiting:
  assumes "\<not> crashed c" "\<not> finished c" "returned c = None" "errCh c = []"
    and "now c + k \<le> t" "0 < k \<longrightarrow> int (now c + k) \<le> timeout"
  shows "(Do_step hs (Some t) timeout)\<^sup>*\<^sup>* c (c\<lparr>now := now c + k\<rparr>)"
  using assms(5,6)
proof (induction k)
  case 0
  show ?case by simp
next
  case (Suc k)
  let ?c = "c\<lparr>now := now c + k\<rparr>"
  from Suc have run: "(Do_step hs (Some t) timeout)\<^sup>*\<^sup>* c ?c" by simp
  have "Do_step hs (Some t) timeout ?c (?c\<lparr>now := now ?c + 1\<rparr>)"
    using assms(1-4) Suc.prems by (intro tick) auto
  then have "Do_step hs (Some t) timeout ?c (c\<lparr>now := now c + Suc k\<rparr>)" by simp
  with run show ?case by (rule rtranclp.rtrancl_into_rtrancl)
qed




text \<open>The run in which the timer is first: time passes until the timeout, \<^verbatim>\<open>Do\<close> returns.\<close>

lemma timer_first_run:
  assumes "max 0 timeout < int t"
  shows "Do_runs hs (Some t) timeout s
           ((Do_init s)\<lparr>now := nat timeout, returned := Some deadline_exceeded\<rparr>)"
proof -
  let ?c = "(Do_init s)\<lparr>now := now (Do_init s) + nat timeout\<rparr>"
  have "(Do_step hs (Some t) timeout)\<^sup>*\<^sup>* (Do_init s) ?c"
    using assms by (intro ticks_waiting) (auto simp: Do_init_def)
  then have "Do_runs hs (Some t) timeout s ?c"
    by (simp add: Do_runs_def)
  moreover have "Do_step hs (Some t) timeout ?c (?c\<lparr>returned := Some deadline_exceeded\<rparr>)"
    by (rule select_timer) (auto simp: Do_init_def)
  ultimately have "Do_runs hs (Some t) timeout s (?c\<lparr>returned := Some deadline_exceeded\<rparr>)"
    by (rule Do_runs_step)
  then show ?thesis by (simp add: Do_init_def)
qed



text \<open>
  Claim C7, as the code has it. A call of the bounded executor with a timeout that is
  zero (or negative) has an immediate deadline, not an unbounded wait: the timer's
  channel is ready at once, so \<^verbatim>\<open>Do\<close> can return the deadline error in its first step; as
  long as it has not returned no time has passed; and unless the handshake returns at
  that very instant, the deadline error is the only thing it returns.
\<close>

theorem Do_zero_timeout:
  assumes "timeout \<le> 0"
  shows "Do_step handshake duration timeout (Do_init s)
           ((Do_init s)\<lparr>returned := Some deadline_exceeded\<rparr>)
       \<and> (\<forall>c. Do_runs handshake duration timeout s c \<and> returned c = None \<longrightarrow> now c = 0)
       \<and> (duration \<noteq> Some 0 \<longrightarrow>
            (\<forall>c y. Do_runs handshake duration timeout s c \<and> returned c = Some y \<longrightarrow>
                    y = deadline_exceeded))"
proof (intro conjI)
  show "Do_step handshake duration timeout (Do_init s)
          ((Do_init s)\<lparr>returned := Some deadline_exceeded\<rparr>)"
    using assms by (intro select_timer) (simp_all add: Do_init_def)
  show "\<forall>c. Do_runs handshake duration timeout s c \<and> returned c = None \<longrightarrow> now c = 0"
    using zero_timeout_inv [OF _ assms] by blast
  show "duration \<noteq> Some 0 \<longrightarrow>
          (\<forall>c y. Do_runs handshake duration timeout s c \<and> returned c = Some y \<longrightarrow>
                  y = deadline_exceeded)"
    using zero_timeout_inv [OF _ assms] by blast
qed

text \<open>
  The statement above for the timeout 0 and a responder handshake of the peer 2 that
  never returns (its read blocks for ever): the first step, the initial configuration,
  and the configuration after the first step.
\<close>

theorem Do_zero_timeout_witness:
  "Do_step (settlementResponderHandshake example_ext (example_cfg 2 None)
              (example_tr 2 1 None (Inl ''EOF''))) None 0
     (Do_init (example_state []))
     ((Do_init (example_state []))\<lparr>returned := Some deadline_exceeded\<rparr>)
   \<and> now (Do_init (example_state [])) = 0
   \<and> Do_runs (settlementResponderHandshake example_ext (example_cfg 2 None)
                (example_tr 2 1 None (Inl ''EOF''))) None 0 (example_state [])
        ((Do_init (example_state []))\<lparr>returned := Some deadline_exceeded\<rparr>)
   \<and> returned ((Do_init (example_state []))\<lparr>returned := Some deadline_exceeded\<rparr>)
       = Some (None, Some (ErrorString ''deadline exceeded''))"
proof -
  let ?H = "settlementResponderHandshake example_ext (example_cfg 2 None)
              (example_tr 2 1 None (Inl ''EOF''))"
  let ?s = "example_state []"
  let ?c = "(Do_init ?s)\<lparr>returned := Some deadline_exceeded\<rparr>"
  have le: "(0::int) \<le> 0" by simp
  have ne: "(None :: nat option) \<noteq> Some 0" by simp
  note zero = Do_zero_timeout [OF le, where handshake = ?H and duration = None and s = ?s]
  from zero have step: "Do_step ?H None 0 (Do_init ?s) ?c" by blast
  have r0: "Do_runs ?H None 0 ?s (Do_init ?s) \<and> returned (Do_init ?s) = None"
    by (rule conjI [OF Do_runs_init]) (simp add: Do_init_def)
  with zero have n: "now (Do_init ?s) = 0" by blast
  from step have r1: "Do_runs ?H None 0 ?s ?c"
    by (rule Do_runs_step [OF Do_runs_init])
  have "returned ?c = Some deadline_exceeded" by simp
  with r1 zero ne have "deadline_exceeded = deadline_exceeded" by blast
  then have "returned ?c = Some (None, Some (ErrorString ''deadline exceeded''))"
    by (simp add: deadline_exceeded_def)
  with step n r1 show ?thesis by blast
qed

text \<open>
  Claim C7 as it is written fails: the peer 2 calls \<^verbatim>\<open>Do\<close> with the timeout 0 on a
  responder handshake that would return, successfully, 5 time units later. At time 0,
  with the handshake still running and the state untouched, \<^verbatim>\<open>Do\<close> has returned the
  deadline error.
\<close>

theorem Do_zero_timeout_counterexample:
  "Do_runs
     (settlementResponderHandshake example_ext (example_cfg 2 None)
        (example_tr 2 1 None
           (Inr (example_msg (example_entry 7 (1, 2) ''tcp'' True)
                   (example_sig (example_entry 7 (1, 2) ''tcp'' True) 1, 0)))))
     (Some 5) 0 (example_state [])
     \<lparr>now = 0, tm_state = example_state [], finished = False, crashed = False,
      entry_var = None, errCh = [],
      returned = Some (None, Some (ErrorString ''deadline exceeded''))\<rparr>"
  using timer_first_run [where timeout = 0 and t = 5 and s = "example_state []"]
  by (simp add: Do_init_def deadline_exceeded_def)



end
